theory Spec2Isabelle
  imports Main
begin

section \<open>DasService: a shallow embedding of \<^verbatim>\<open>src/DasService.ts\<close>\<close>

text \<open>
  The class \<^verbatim>\<open>DasService\<close> resolves \<^verbatim>\<open>.bit\<close> accounts through a transport
  (\<^verbatim>\<open>provider.request\<close>). Every method is embedded as a function that takes the
  service instance (\<^verbatim>\<open>this\<close>) explicitly. A method that throws, or whose promise is
  rejected, returns \<open>Inl\<close> of the error; a method that returns, or whose promise is
  fulfilled, returns \<open>Inr\<close> of the value. Awaiting is sequencing: no method of the class
  shares state with another call.

  Modelling choices:
  \<^item> a string is the list of its code units, those below 256 being the ones the model has;
    the regular expression's \<^verbatim>\<open>.\<close> excludes line feed and carriage return;
  \<^item> \<^verbatim>\<open>Number\<close> and \<^verbatim>\<open>String.prototype.toLowerCase\<close>, builtins of the language, are
    the parameters \<open>toNumber\<close> and \<open>toLowerCase\<close> of the methods that call them: the
    theorems hold for every conversion and every case mapping;
  \<^item> the objects that \<^verbatim>\<open>allRecords\<close> and \<^verbatim>\<open>records\<close> fill are modelled with their own
    properties and the members they inherit from \<^verbatim>\<open>Object.prototype\<close>; the group maps of
    \<^verbatim>\<open>account\<close> are modelled at the stripped keys of the records, by what a read
    yields there;
  \<^item> \<^verbatim>\<open>undefined\<close> and \<^verbatim>\<open>null\<close> are kept apart where a method can return them.
\<close>

subsection \<open>Strings\<close>

text \<open>\<^verbatim>\<open>String.prototype.split\<close> with a one-character separator. \<open>split_labels\<close>
  gives the first label and the list of the labels after it: the result of \<open>split\<close> is
  never empty, and the empty string splits into one empty label.\<close>

fun split_labels :: "char \<Rightarrow> string \<Rightarrow> string \<times> string list" where
  "split_labels sep [] = ([], [])"
| "split_labels sep (c # cs) =
     (case split_labels sep cs of
        (w, ws) \<Rightarrow> if c = sep then ([], w # ws) else (c # w, ws))"

definition split :: "char \<Rightarrow> string \<Rightarrow> string list" where
  "split sep s = (case split_labels sep s of (w, ws) \<Rightarrow> w # ws)"

text \<open>\<^verbatim>\<open>Array.prototype.join\<close> with a one-character separator.\<close>

fun join :: "char \<Rightarrow> string list \<Rightarrow> string" where
  "join sep [] = []"
| "join sep [x] = x"
| "join sep (x # y # ys) = x @ sep # join sep (y # ys)"

text \<open>The regular expression \<^verbatim>\<open>/.+\.bit/\<close>. A \<^verbatim>\<open>.\<close> matches any code unit that is not a
  line terminator. \<open>dotPlus_bit\<close> matches the expression at the start of its argument;
  \<open>regex_test\<close> is \<^verbatim>\<open>RegExp.prototype.test\<close>, which tries every start position (the
  expression has no anchor).\<close>

definition isLineTerminator :: "char \<Rightarrow> bool" where
  "isLineTerminator c = (c = CHR 0x0A \<or> c = CHR 0x0D)"

fun dotPlus_bit :: "string \<Rightarrow> bool" where
  "dotPlus_bit [] = False"
| "dotPlus_bit (c # cs) =
     (\<not> isLineTerminator c \<and> (take 4 cs = ''.bit'' \<or> dotPlus_bit cs))"

fun regex_test :: "string \<Rightarrow> bool" where
  "regex_test [] = False"
| "regex_test (c # cs) = (dotPlus_bit (c # cs) \<or> regex_test cs)"

subsection \<open>Errors\<close>

datatype ResolutionErrorCode = UnregisteredDomain | UnsupportedMethod | RecordNotFound

datatype ConfigurationErrorCode = UnspecifiedUrl | UnsupportedNetwork

text \<open>A \<^verbatim>\<open>ResolutionError\<close> carries its code and the options \<^verbatim>\<open>domain\<close>,
  \<^verbatim>\<open>methodName\<close> and \<^verbatim>\<open>recordName\<close>, in this order. \<open>Error\<close> is a plain \<^verbatim>\<open>Error\<close> with its message,
  \<open>TypeError\<close> the runtime's error on reading a property of \<^verbatim>\<open>undefined\<close> or calling
  what is not a function, \<open>TransportError\<close> any other failure the transport raises.\<close>

datatype error =
    ResolutionError ResolutionErrorCode string "string option" "string option"
  | ConfigurationError ConfigurationErrorCode
  | Error string
  | TypeError
  | TransportError string

text \<open>The kind of a resolution error; no other error has one.\<close>

definition resolutionErrorKind :: "error \<Rightarrow> ResolutionErrorCode option" where
  "resolutionErrorKind e = (case e of ResolutionError c _ _ _ \<Rightarrow> Some c | _ \<Rightarrow> None)"

subsection \<open>Domain syntax and the unsupported methods\<close>

definition isSupportedDomain :: "string \<Rightarrow> bool" where
  "isSupportedDomain account =
     (regex_test account \<and> list_all (\<lambda>v. length v \<noteq> 0) (split CHR ''.'' account))"

definition namehash :: "string \<Rightarrow> error + string" where
  "namehash account =
     (if \<not> isSupportedDomain account
      then Inl (ResolutionError UnregisteredDomain account None None)
      else Inr [])"

definition childhash :: "string \<Rightarrow> string \<Rightarrow> error + string" where
  "childhash parentHash label =
     Inl (ResolutionError UnsupportedMethod label (Some ''childhash'') None)"

definition resolver :: "string \<Rightarrow> error + string" where
  "resolver account =
     Inl (ResolutionError UnsupportedMethod account (Some ''resolver'') None)"

definition twitter :: "string \<Rightarrow> error + string" where
  "twitter account =
     Inl (ResolutionError UnsupportedMethod account (Some ''twitter'') None)"

subsection \<open>Values and truthiness\<close>

text \<open>What a method that may return nothing returns: \<^verbatim>\<open>undefined\<close>, \<^verbatim>\<open>null\<close> or a
  value.\<close>

datatype 'a jsvalue = JSUndefined | JSNull | JSValue 'a

text \<open>An optional string (a missing property reads as \<^verbatim>\<open>undefined\<close>) is truthy when it
  is present and not empty.\<close>

definition truthy :: "string option \<Rightarrow> bool" where
  "truthy v = (case v of None \<Rightarrow> False | Some s \<Rightarrow> s \<noteq> [])"

subsection \<open>Objects used as dictionaries\<close>

text \<open>The methods \<^verbatim>\<open>allRecords\<close> and \<^verbatim>\<open>records\<close> fill an object created by \<^verbatim>\<open>{}\<close> and
  read it with \<^verbatim>\<open>obj[key]\<close>. Such an object has its own properties and inherits the
  members of \<^verbatim>\<open>Object.prototype\<close>, listed here by name as ECMAScript (with its Annex B)
  defines them. A property read yields a string, or the inherited member of the name read:
  a function, or \<^verbatim>\<open>Object.prototype\<close> itself for \<^verbatim>\<open>__proto__\<close>.\<close>

definition ObjectPrototype_members :: "string list" where
  "ObjectPrototype_members =
     [''constructor'', ''__defineGetter__'', ''__defineSetter__'', ''hasOwnProperty'',
      ''__lookupGetter__'', ''__lookupSetter__'', ''isPrototypeOf'', ''propertyIsEnumerable'',
      ''toString'', ''valueOf'', ''__proto__'', ''toLocaleString'']"

datatype property = Str string | Member string

text \<open>An object is the map of its own properties. \<^verbatim>\<open>obj[k]\<close> reads the own property
  \<open>k\<close>, else the inherited member \<open>k\<close>, else \<^verbatim>\<open>undefined\<close> (\<open>None\<close>).\<close>

definition getProperty :: "(string \<rightharpoonup> property) \<Rightarrow> string \<Rightarrow> property option" where
  "getProperty obj k =
     (case obj k of
        Some v \<Rightarrow> Some v
      | None \<Rightarrow> if k \<in> set ObjectPrototype_members then Some (Member k) else None)"

text \<open>\<^verbatim>\<open>v || ''\<close> on what a property read yields: an inherited member is truthy, a string
  is truthy when it is not empty.\<close>

definition orEmpty :: "property option \<Rightarrow> property" where
  "orEmpty v =
     (case v of
        None \<Rightarrow> Str []
      | Some (Str s) \<Rightarrow> if s \<noteq> [] then Str s else Str []
      | Some (Member m) \<Rightarrow> Member m)"

subsection \<open>Account data\<close>

text \<open>A record as the indexer sends it has \<^verbatim>\<open>key\<close>, \<^verbatim>\<open>value\<close> and \<^verbatim>\<open>ttl\<close>, the
  \<^verbatim>\<open>ttl\<close> a string; normalisation converts the \<^verbatim>\<open>ttl\<close> and adds \<^verbatim>\<open>type\<close> and
  \<^verbatim>\<open>strippedKey\<close>.\<close>

record 't RecordBase =
  key :: string
  "value" :: string
  ttl :: 't

record 't AccountRecord = "'t RecordBase" +
  type :: string
  strippedKey :: string

text \<open>An entry of the reverse lookup's reply is \<^verbatim>\<open>{account}\<close>; the account data of a
  search has \<^verbatim>\<open>account\<close>, \<^verbatim>\<open>owner_lock_args_hex\<close> and \<^verbatim>\<open>records\<close>.\<close>

record AccountName =
  account :: string

record 'r AccountData = AccountName +
  owner_lock_args_hex :: string
  records :: "'r list"





subsection \<open>The transport\<close>

text \<open>The reply of \<^verbatim>\<open>provider.request\<close> has an optional \<^verbatim>\<open>data\<close>, whose
  \<^verbatim>\<open>account_data\<close> is the account data of \<^verbatim>\<open>das_searchAccount\<close> or the list of
  \<^verbatim>\<open>das_getAddressAccount\<close>. A provider is its \<^verbatim>\<open>request\<close>, from the method name and
  the parameters to a reply or the error it raises. The source casts the reply without a
  check: a method that reads a reply of the other shape, or the \<^verbatim>\<open>account_data\<close> of a
  missing \<^verbatim>\<open>data\<close>, fails with a \<open>TypeError\<close>.\<close>

datatype cell =
    SearchAccount "string RecordBase AccountData"
  | AddressAccount "AccountName list"

record reply =
  data :: "cell option"

type_synonym Provider = "string \<Rightarrow> string list \<Rightarrow> error + reply"

subsection \<open>Construction\<close>

record DasSource =
  url :: "string option"
  network :: "string option"
  provider :: "Provider option"

record DasService =
  network :: string
  url :: "string option"
  provider :: Provider

text \<open>Modelled from the spec: \<^verbatim>\<open>DasSupportedNetwork.guard\<close> is declared in
  \<^verbatim>\<open>types/index\<close>; the spec gives the supported set.\<close>

definition DasSupportedNetwork_guard :: "string \<Rightarrow> bool" where
  "DasSupportedNetwork_guard n = (n \<in> set [''mainnet'', ''testnet'', ''aggron''])"

text \<open>The constructor. \<open>FetchProvider\<close> stands for \<^verbatim>\<open>new FetchProvider(this.name, url)\<close>,
  the default transport built from the url; the class is declared in another file.
  \<^verbatim>\<open>!source.network\<close> holds for a network that is absent or empty; a provider, an
  object, is truthy when it is supplied.\<close>

definition DasService_new :: "(string option \<Rightarrow> Provider) \<Rightarrow> DasSource \<Rightarrow> error + DasService" where
  "DasService_new FetchProvider source =
     (if \<not> (truthy (DasSource.url source) \<or> DasSource.provider source \<noteq> None)
      then Inl (ConfigurationError UnspecifiedUrl)
      else
        let network = (case DasSource.network source of
                         None \<Rightarrow> ''mainnet''
                       | Some n \<Rightarrow> if n = [] then ''mainnet'' else n)
        in if \<not> DasSupportedNetwork_guard network
           then Inl (ConfigurationError UnsupportedNetwork)
           else Inr \<lparr> DasService.network = network,
                      url = DasSource.url source,
                      provider = (case DasSource.provider source of
                                    Some p \<Rightarrow> p
                                  | None \<Rightarrow> FetchProvider (DasSource.url source)) \<rparr>)"

subsection \<open>Resolution\<close>

text \<open>The body of the \<^verbatim>\<open>forEach\<close> of \<^verbatim>\<open>getAccountData\<close>. \<^verbatim>\<open>shift\<close> takes the first
  part off \<^verbatim>\<open>keyParts\<close>, which is never empty (\<open>split_not_Nil\<close> below).\<close>

definition normalise :: "(string \<Rightarrow> 'n) \<Rightarrow> string RecordBase \<Rightarrow> 'n AccountRecord" where
  "normalise toNumber record =
     (let keyParts = split CHR ''.'' (key record)
      in \<lparr> key = key record, value = value record, ttl = toNumber (ttl record),
            type = hd keyParts, strippedKey = join CHR ''.'' (tl keyParts) \<rparr>)"

definition getAccountData ::
  "(string \<Rightarrow> 'n) \<Rightarrow> DasService \<Rightarrow> string \<Rightarrow> error + 'n AccountRecord AccountData" where
  "getAccountData toNumber this acct =
     (case DasService.provider this ''das_searchAccount'' [acct] of
        Inl e \<Rightarrow> Inl e
      | Inr response \<Rightarrow>
          (case data response of
             None \<Rightarrow> Inl (ResolutionError UnregisteredDomain acct None None)
           | Some (AddressAccount _) \<Rightarrow> Inl TypeError
           | Some (SearchAccount d) \<Rightarrow>
               Inr \<lparr> AccountName.account = AccountName.account d,
                     owner_lock_args_hex = owner_lock_args_hex d,
                     records = map (normalise toNumber) (AccountData.records d) \<rparr>))"

definition allReverse :: "DasService \<Rightarrow> string \<Rightarrow> error + string list" where
  "allReverse this address =
     (case DasService.provider this ''das_getAddressAccount'' [address] of
        Inl e \<Rightarrow> Inl e
      | Inr response \<Rightarrow>
          (case data response of
             None \<Rightarrow> Inl TypeError
           | Some (SearchAccount _) \<Rightarrow> Inl TypeError
           | Some (AddressAccount accounts) \<Rightarrow> Inr (map AccountName.account accounts)))"

subsection \<open>Queries\<close>

definition owner :: "(string \<Rightarrow> 'n) \<Rightarrow> DasService \<Rightarrow> string \<Rightarrow> error + string" where
  "owner toNumber this acct =
     (case getAccountData toNumber this acct of
        Inl e \<Rightarrow> Inl e
      | Inr accountData \<Rightarrow> Inr (owner_lock_args_hex accountData))"

text \<open>\<^verbatim>\<open>allRecords\<close>: the \<^verbatim>\<open>forEach\<close> writes each record under its lower-cased key,
  in the order of the list. \<open>toLowerCase\<close> stands for \<^verbatim>\<open>String.prototype.toLowerCase\<close>.
  An assignment to \<^verbatim>\<open>__proto__\<close> goes to the setter that \<^verbatim>\<open>Object.prototype\<close> has for
  it, which ignores a string: it creates no own property. The account data that
  \<open>getAccountData\<close> returns is an object, so the \<^verbatim>\<open>else\<close> branch of \<^verbatim>\<open>if (data)\<close> is
  never taken.\<close>

definition flatten ::
  "(string \<Rightarrow> string) \<Rightarrow> ('t, 'm) RecordBase_scheme list \<Rightarrow> (string \<rightharpoonup> property)" where
  "flatten toLowerCase rs =
     foldl (\<lambda>returnee record.
              if toLowerCase (key record) = ''__proto__'' then returnee
              else returnee(toLowerCase (key record) \<mapsto> Str (value record)))
       Map.empty rs"

definition allRecords ::
  "(string \<Rightarrow> 'n) \<Rightarrow> (string \<Rightarrow> string) \<Rightarrow> DasService \<Rightarrow> string
     \<Rightarrow> error + (string \<rightharpoonup> property)" where
  "allRecords toNumber toLowerCase this acct =
     (case getAccountData toNumber this acct of
        Inl e \<Rightarrow> Inl e
      | Inr d \<Rightarrow> Inr (flatten toLowerCase (AccountData.records d)))"

text \<open>\<^verbatim>\<open>record(account, key)\<close>: \<^verbatim>\<open>!returnee\<close> holds for \<^verbatim>\<open>undefined\<close> and for an empty
  string; an inherited member is returned as it is.\<close>

definition record_method ::
  "(string \<Rightarrow> 'n) \<Rightarrow> (string \<Rightarrow> string) \<Rightarrow> DasService \<Rightarrow> string \<Rightarrow> string
     \<Rightarrow> error + property" where
  "record_method toNumber toLowerCase this acct key0 =
     (let k = toLowerCase key0
      in case allRecords toNumber toLowerCase this acct of
           Inl e \<Rightarrow> Inl e
         | Inr all \<Rightarrow>
             (case getProperty all k of
                None \<Rightarrow> Inl (ResolutionError RecordNotFound acct None (Some k))
              | Some (Str returnee) \<Rightarrow>
                  if returnee = []
                  then Inl (ResolutionError RecordNotFound acct None (Some k))
                  else Inr (Str returnee)
              | Some (Member m) \<Rightarrow> Inr (Member m)))"

text \<open>\<^verbatim>\<open>records(account, keys)\<close>: the \<^verbatim>\<open>reduce\<close> over the requested keys. For the key
  \<^verbatim>\<open>__proto__\<close> the value read is \<^verbatim>\<open>Object.prototype\<close>, and assigning it to
  \<^verbatim>\<open>__proto__\<close> sets the prototype to what it already is: no own property is created.\<close>

definition records_method ::
  "(string \<Rightarrow> 'n) \<Rightarrow> (string \<Rightarrow> string) \<Rightarrow> DasService \<Rightarrow> string \<Rightarrow> string list
     \<Rightarrow> error + (string \<rightharpoonup> property)" where
  "records_method toNumber toLowerCase this acct keys =
     (case allRecords toNumber toLowerCase this acct of
        Inl e \<Rightarrow> Inl e
      | Inr recs \<Rightarrow>
          Inr (foldl (\<lambda>returnee k.
                        if k = ''__proto__'' then returnee
                        else returnee(k \<mapsto> orEmpty (getProperty recs k)))
                 Map.empty keys))"

definition reverse :: "DasService \<Rightarrow> string \<Rightarrow> string \<Rightarrow> error + string jsvalue" where
  "reverse this address currencyTicker =
     (if currencyTicker \<notin> set [''ETH'', ''CKB'']
      then Inl (Error ''Das does not support any chain other than CKB and ETH'')
      else case allReverse this address of
             Inl e \<Rightarrow> Inl e
           | Inr accounts \<Rightarrow>
               Inr (case accounts of [] \<Rightarrow> JSUndefined | a # _ \<Rightarrow> JSValue a))"

text \<open>\<^verbatim>\<open>isRegistered\<close>: \<^verbatim>\<open>Boolean\<close> of the account data, an object, is \<^verbatim>\<open>true\<close>.\<close>

definition isRegistered :: "(string \<Rightarrow> 'n) \<Rightarrow> DasService \<Rightarrow> string \<Rightarrow> error + bool" where
  "isRegistered toNumber this acct =
     (case getAccountData toNumber this acct of
        Inl e \<Rightarrow> Inl e
      | Inr accountData \<Rightarrow> Inr True)"

definition recordsByKey ::
  "(string \<Rightarrow> 'n) \<Rightarrow> DasService \<Rightarrow> string \<Rightarrow> string \<Rightarrow> error + 'n AccountRecord list" where
  "recordsByKey toNumber this acct k =
     (case getAccountData toNumber this acct of
        Inl e \<Rightarrow> Inl e
      | Inr accountData \<Rightarrow>
          Inr (filter (\<lambda>record. key record = k) (AccountData.records accountData)))"

definition addr ::
  "(string \<Rightarrow> 'n) \<Rightarrow> (string \<Rightarrow> string) \<Rightarrow> DasService \<Rightarrow> string \<Rightarrow> string
     \<Rightarrow> error + property" where
  "addr toNumber toLowerCase this acct ticker =
     record_method toNumber toLowerCase this acct (''address.'' @ ticker)"

subsection \<open>The aggregate view\<close>

record 'n ConstructedAccount =
  account :: string
  avatar :: string
  profile :: "string \<rightharpoonup> 'n AccountRecord"
  address :: "string \<rightharpoonup> 'n AccountRecord"
  dweb :: "string \<rightharpoonup> 'n AccountRecord"
  custom :: "string \<rightharpoonup> 'n AccountRecord"
  profiles :: "'n AccountRecord list"
  addresses :: "'n AccountRecord list"
  dwebs :: "'n AccountRecord list"
  customs :: "'n AccountRecord list"
  records :: "'n AccountRecord list"



subsection \<open>An example service\<close>

text \<open>The examples below instantiate the theorems. \<open>decimal\<close> is the value of
  \<^verbatim>\<open>Number\<close> on a short string of decimal digits. The example indexer knows the account
  \<^verbatim>\<open>alice.bit\<close>, with four records, and the address \<^verbatim>\<open>0xabc\<close>.\<close>

definition decimal :: "string \<Rightarrow> nat" where
  "decimal s = foldl (\<lambda>n c. 10 * n + (of_char c - 48)) 0 s"

text \<open>\<open>example_toLowerCase\<close> is the value of \<^verbatim>\<open>toLowerCase\<close> on a string of ASCII
  characters: it maps \<^verbatim>\<open>A\<close>--\<^verbatim>\<open>Z\<close> to \<^verbatim>\<open>a\<close>--\<^verbatim>\<open>z\<close>.\<close>

definition example_isUpperCase :: "char \<Rightarrow> bool" where
  "example_isUpperCase c = (65 \<le> (of_char c :: nat) \<and> (of_char c :: nat) \<le> 90)"

definition example_toLowerCase_char :: "char \<Rightarrow> char" where
  "example_toLowerCase_char c =
     (if example_isUpperCase c then char_of ((of_char c :: nat) + 32) else c)"

definition example_toLowerCase :: "string \<Rightarrow> string" where
  "example_toLowerCase s = map example_toLowerCase_char s"

definition example_records :: "string RecordBase list" where
  "example_records =
     [\<lparr> key = ''profile.twitter'', value = ''first'', ttl = ''300'' \<rparr>,
      \<lparr> key = ''address.ETH'', value = ''0xabc'', ttl = ''300'' \<rparr>,
      \<lparr> key = ''profile.twitter'', value = ''second'', ttl = ''600'' \<rparr>,
      \<lparr> key = ''custom.note'', value = [], ttl = ''300'' \<rparr>]"

definition example_provider :: Provider where
  "example_provider method params =
     (if method = ''das_searchAccount'' then
        (if params = [''alice.bit'']
         then Inr \<lparr> data = Some (SearchAccount
                \<lparr> AccountName.account = ''alice.bit'', owner_lock_args_hex = ''0x01'',
                  records = example_records \<rparr>) \<rparr>
         else Inr \<lparr> data = None \<rparr>)
      else if method = ''das_getAddressAccount'' then
        (if params = [''0xabc'']
         then Inr \<lparr> data = Some (AddressAccount [\<lparr> AccountName.account = ''alice.bit'' \<rparr>]) \<rparr>
         else Inr \<lparr> data = Some (AddressAccount []) \<rparr>)
      else Inl (TransportError ''unknown method''))"

definition example_service :: DasService where
  "example_service =
     \<lparr> DasService.network = ''mainnet'', url = Some ''https://indexer.da.systems'',
       provider = example_provider \<rparr>"

text \<open>The account data of \<^verbatim>\<open>alice.bit\<close> after normalisation with \<open>decimal\<close>.\<close>

definition example_normalised :: "nat AccountRecord list" where
  "example_normalised =
     [\<lparr> key = ''profile.twitter'', value = ''first'', ttl = 300,
        type = ''profile'', strippedKey = ''twitter'' \<rparr>,
      \<lparr> key = ''address.ETH'', value = ''0xabc'', ttl = 300,
        type = ''address'', strippedKey = ''ETH'' \<rparr>,
      \<lparr> key = ''profile.twitter'', value = ''second'', ttl = 600,
        type = ''profile'', strippedKey = ''twitter'' \<rparr>,
      \<lparr> key = ''custom.note'', value = [], ttl = 300,
        type = ''custom'', strippedKey = ''note'' \<rparr>]"

definition example_account_data :: "nat AccountRecord AccountData" where
  "example_account_data =
     \<lparr> AccountName.account = ''alice.bit'', owner_lock_args_hex = ''0x01'',
       records = example_normalised \<rparr>"

definition example_FetchProvider :: "string option \<Rightarrow> Provider" where
  "example_FetchProvider u method params = Inl (TransportError ''no network'')"

section \<open>Properties\<close>

subsection \<open>Strings\<close>

lemma split_not_Nil: "split sep s \<noteq> []"
  by (simp add: split_def split: prod.splits)

lemma split_Nil: "split sep [] = [[]]"
  by (simp add: split_def)

lemma split_Cons:
  "split sep (c # cs) =
     (if c = sep then [] # split sep cs else (c # hd (split sep cs)) # tl (split sep cs))"
  by (simp add: split_def split: prod.splits)

lemma join_split: "join sep (split sep s) = s"
proof (induction s)
  case Nil
  show ?case by (simp add: split_Nil)
next
  case (Cons c cs)
  obtain w ws where ws: "split sep cs = w # ws"
    using split_not_Nil [of sep cs] by (cases "split sep cs") auto
  show ?case
  proof (cases "c = sep")
    case True
    with Cons ws show ?thesis by (simp add: split_Cons)
  next
    case False
    with Cons ws show ?thesis by (cases ws) (auto simp: split_Cons)
  qed
qed

lemma hd_split: "hd (split sep s) = takeWhile (\<lambda>c. c \<noteq> sep) s"
  by (induction s) (simp_all add: split_Nil split_Cons)

lemma join_tl_split: "join sep (tl (split sep s)) = tl (dropWhile (\<lambda>c. c \<noteq> sep) s)"
proof (induction s)
  case Nil
  show ?case by (simp add: split_Nil)
next
  case (Cons c cs)
  show ?case
  proof (cases "c = sep")
    case True
    then show ?thesis by (simp add: split_Cons join_split)
  next
    case False
    with Cons show ?thesis by (simp add: split_Cons)
  qed
qed

subsection \<open>Unsupported methods\<close>

text \<open>C9. Whatever their arguments, \<open>resolver\<close>, \<open>twitter\<close> and \<open>childhash\<close> fail with a
  resolution error of kind \<open>UnsupportedMethod\<close> that carries the attempted domain (for
  \<open>childhash\<close>, the label) and the method's name; none of them returns a value.\<close>

theorem unsupported_methods_fail:
  "resolver acct = Inl (ResolutionError UnsupportedMethod acct (Some ''resolver'') None)
   \<and> twitter acct = Inl (ResolutionError UnsupportedMethod acct (Some ''twitter'') None)
   \<and> childhash parentHash label =
       Inl (ResolutionError UnsupportedMethod label (Some ''childhash'') None)
   \<and> (\<forall>v. resolver acct \<noteq> Inr v)
   \<and> (\<forall>v. twitter acct \<noteq> Inr v)
   \<and> (\<forall>v. childhash parentHash label \<noteq> Inr v)"
  by (simp add: resolver_def twitter_def childhash_def)

subsection \<open>Domain syntax\<close>

text \<open>What \<^verbatim>\<open>/.+\.bit/.test\<close> decides: the string holds \<^verbatim>\<open>.bit\<close> somewhere, right after
  a code unit that is not a line terminator.\<close>

lemma take4_bit: "take 4 cs = ''.bit'' \<Longrightarrow> cs = ''.bit'' @ drop 4 cs"
  by (metis append_take_drop_id)

lemma dotPlus_bit_occurrence:
  "dotPlus_bit s \<Longrightarrow> \<exists>pre c post. \<not> isLineTerminator c \<and> s = pre @ c # ''.bit'' @ post"
proof (induction s)
  case Nil
  then show ?case by simp
next
  case (Cons a s)
  then have a: "\<not> isLineTerminator a" and or: "take 4 s = ''.bit'' \<or> dotPlus_bit s"
    by simp_all
  from or show ?case
  proof
    assume "take 4 s = ''.bit''"
    then have "a # s = [] @ a # ''.bit'' @ drop 4 s"
      using take4_bit by fastforce
    with a show ?thesis by blast
  next
    assume "dotPlus_bit s"
    with Cons.IH obtain pre c post where "\<not> isLineTerminator c" "s = pre @ c # ''.bit'' @ post"
      by blast
    then have "\<not> isLineTerminator c \<and> a # s = (a # pre) @ c # ''.bit'' @ post"
      by simp
    then show ?thesis by blast
  qed
qed

lemma regex_test_occurrence:
  "regex_test s \<Longrightarrow> \<exists>pre c post. \<not> isLineTerminator c \<and> s = pre @ c # ''.bit'' @ post"
proof (induction s)
  case Nil
  then show ?case by simp
next
  case (Cons a s)
  then have "dotPlus_bit (a # s) \<or> regex_test s" by simp
  then show ?case
  proof
    assume "dotPlus_bit (a # s)"
    then show ?thesis by (rule dotPlus_bit_occurrence)
  next
    assume "regex_test s"
    with Cons.IH obtain pre c post where "\<not> isLineTerminator c" "s = pre @ c # ''.bit'' @ post"
      by blast
    then have "\<not> isLineTerminator c \<and> a # s = (a # pre) @ c # ''.bit'' @ post"
      by simp
    then show ?thesis by blast
  qed
qed

lemma regex_test_at_occurrence:
  "\<not> isLineTerminator c \<Longrightarrow> regex_test (pre @ c # ''.bit'' @ post)"
  by (induction pre) simp_all

lemma regex_test_iff:
  "regex_test s = (\<exists>pre c post. \<not> isLineTerminator c \<and> s = pre @ c # ''.bit'' @ post)"
  using regex_test_occurrence regex_test_at_occurrence by blast

lemma isSupportedDomain_iff:
  "isSupportedDomain s =
     ((\<exists>pre c post. \<not> isLineTerminator c \<and> s = pre @ c # ''.bit'' @ post)
      \<and> [] \<notin> set (split CHR ''.'' s))"
  by (auto simp: isSupportedDomain_def regex_test_iff list_all_iff)

text \<open>A string that ends with \<^verbatim>\<open>.bit\<close> after a code unit that is not a line terminator,
  and has no empty label, is a supported domain.\<close>

lemma isSupportedDomain_suffix:
  assumes "\<not> isLineTerminator c" and "[] \<notin> set (split CHR ''.'' (pre @ c # ''.bit''))"
  shows "isSupportedDomain (pre @ c # ''.bit'')"
  using assms isSupportedDomain_iff [of "pre @ c # ''.bit''"] by fastforce

lemma isSupportedDomain_examples:
  "isSupportedDomain ''a.bit''" "\<not> isSupportedDomain ''a..bit''" "\<not> isSupportedDomain ''notbit.com''"
  by (simp_all add: isSupportedDomain_def isLineTerminator_def split_def)

text \<open>C2. The claim is that \<open>isSupportedDomain s\<close> holds exactly when \<open>s\<close> ends with
  \<^verbatim>\<open>.bit\<close> and has no empty label. The regular expression has no end anchor:
  \<^verbatim>\<open>a.bitcoin\<close> does not end with \<^verbatim>\<open>.bit\<close>, has the labels \<^verbatim>\<open>a\<close> and \<^verbatim>\<open>bitcoin\<close>,
  and is accepted.\<close>

theorem isSupportedDomain_accepts_longer_suffix:
  "isSupportedDomain ''a.bitcoin'' \<and> (\<forall>p. ''a.bitcoin'' \<noteq> p @ ''.bit'')"
proof -
  have "isSupportedDomain ''a.bitcoin''"
    by (simp add: isSupportedDomain_def isLineTerminator_def split_def)
  moreover have "''a.bitcoin'' \<noteq> p @ ''.bit''" for p
  proof
    assume "''a.bitcoin'' = p @ ''.bit''"
    then have "last ''a.bitcoin'' = last (p @ ''.bit'')" by simp
    then show False by simp
  qed
  ultimately show ?thesis by blast
qed

subsection \<open>Account data resolution\<close>

lemma example_request:
  "DasService.provider example_service ''das_searchAccount'' [''alice.bit'']
     = Inr \<lparr> data = Some (SearchAccount
                \<lparr> AccountName.account = ''alice.bit'', owner_lock_args_hex = ''0x01'',
                  records = example_records \<rparr>) \<rparr>"
  by (simp add: example_service_def example_provider_def)

lemma example_request_unknown:
  "DasService.provider example_service ''das_searchAccount'' [''bob.bit''] = Inr \<lparr> data = None \<rparr>"
  by (simp add: example_service_def example_provider_def)

text \<open>C4. When the transport replies, \<open>getAccountData\<close> fails with a resolution error
  of kind \<open>UnregisteredDomain\<close> exactly when the reply carries no data; when the reply
  carries account data, it returns that account data with, for every record, the key and
  the value unchanged, the \<^verbatim>\<open>ttl\<close> converted from its string to a number, the type the
  first part of the key split at the dots, and the stripped key the other parts joined
  with dots: the type is the key up to its first dot, the stripped key what follows that
  dot.\<close>

theorem getAccountData_spec:
  assumes "DasService.provider this ''das_searchAccount'' [acct] = Inr response"
  shows "(getAccountData toNumber this acct = Inl (ResolutionError UnregisteredDomain acct None None))
           = (data response = None)
    \<and> ((\<exists>e. getAccountData toNumber this acct = Inl e
              \<and> resolutionErrorKind e = Some UnregisteredDomain)
           = (data response = None))
    \<and> (\<forall>d. data response = Some (SearchAccount d) \<longrightarrow>
          (\<exists>d'. getAccountData toNumber this acct = Inr d'
             \<and> AccountName.account d' = AccountName.account d
             \<and> owner_lock_args_hex d' = owner_lock_args_hex d
             \<and> length (AccountData.records d') = length (AccountData.records d)
             \<and> (\<forall>i < length (AccountData.records d).
                   key (AccountData.records d' ! i) = key (AccountData.records d ! i)
                 \<and> value (AccountData.records d' ! i) = value (AccountData.records d ! i)
                 \<and> ttl (AccountData.records d' ! i) = toNumber (ttl (AccountData.records d ! i))
                 \<and> type (AccountData.records d' ! i)
                     = hd (split CHR ''.'' (key (AccountData.records d ! i)))
                 \<and> strippedKey (AccountData.records d' ! i)
                     = join CHR ''.'' (tl (split CHR ''.'' (key (AccountData.records d ! i))))
                 \<and> type (AccountData.records d' ! i)
                     = takeWhile (\<lambda>c. c \<noteq> CHR ''.'') (key (AccountData.records d ! i))
                 \<and> strippedKey (AccountData.records d' ! i)
                     = tl (dropWhile (\<lambda>c. c \<noteq> CHR ''.'') (key (AccountData.records d ! i))))))"
  using assms
  by (auto simp: getAccountData_def normalise_def Let_def resolutionErrorKind_def
      hd_split join_tl_split split: option.splits cell.splits)

theorem getAccountData_spec_witness:
  "DasService.provider example_service ''das_searchAccount'' [''alice.bit'']
     = Inr \<lparr> data = Some (SearchAccount
                \<lparr> AccountName.account = ''alice.bit'', owner_lock_args_hex = ''0x01'',
                  records = example_records \<rparr>) \<rparr>
   \<and> getAccountData decimal example_service ''alice.bit''
       \<noteq> Inl (ResolutionError UnregisteredDomain ''alice.bit'' None None)
   \<and> (\<exists>d'. getAccountData decimal example_service ''alice.bit'' = Inr d'
         \<and> ttl (AccountData.records d' ! 1) = 300
         \<and> type (AccountData.records d' ! 1) = ''address''
         \<and> strippedKey (AccountData.records d' ! 1) = ''ETH'')
   \<and> DasService.provider example_service ''das_searchAccount'' [''bob.bit'']
     = Inr \<lparr> data = None \<rparr>
   \<and> getAccountData decimal example_service ''bob.bit''
     = Inl (ResolutionError UnregisteredDomain ''bob.bit'' None None)"
proof -
  note h = getAccountData_spec [OF example_request, of decimal]
  have b: "getAccountData decimal example_service ''bob.bit''
     = Inl (ResolutionError UnregisteredDomain ''bob.bit'' None None)"
    using getAccountData_spec [OF example_request_unknown, of decimal] by simp
  from h have a: "getAccountData decimal example_service ''alice.bit''
       \<noteq> Inl (ResolutionError UnregisteredDomain ''alice.bit'' None None)"
    by simp
  from h obtain d' where d': "getAccountData decimal example_service ''alice.bit'' = Inr d'"
    and every: "\<forall>i < length example_records.
         ttl (AccountData.records d' ! i) = decimal (ttl (example_records ! i))
       \<and> type (AccountData.records d' ! i) = hd (split CHR ''.'' (key (example_records ! i)))
       \<and> strippedKey (AccountData.records d' ! i)
           = join CHR ''.'' (tl (split CHR ''.'' (key (example_records ! i))))"
    by auto
  have "1 < length example_records"
    by (simp add: example_records_def)
  with every have "ttl (AccountData.records d' ! 1) = decimal (ttl (example_records ! 1))
       \<and> type (AccountData.records d' ! 1) = hd (split CHR ''.'' (key (example_records ! 1)))
       \<and> strippedKey (AccountData.records d' ! 1)
           = join CHR ''.'' (tl (split CHR ''.'' (key (example_records ! 1))))"
    by blast
  then have "ttl (AccountData.records d' ! 1) = 300
         \<and> type (AccountData.records d' ! 1) = ''address''
         \<and> strippedKey (AccountData.records d' ! 1) = ''ETH''"
    by (simp add: example_records_def decimal_def split_def)
  with a b d' example_request example_request_unknown show ?thesis by blast
qed

text \<open>The type is the key up to its first dot, the stripped key what follows that dot
  (\<open>hd_split\<close>, \<open>join_tl_split\<close>).\<close>

lemma normalise_type_strippedKey:
  "type (normalise toNumber r) = takeWhile (\<lambda>c. c \<noteq> CHR ''.'') (key r)
   \<and> strippedKey (normalise toNumber r) = tl (dropWhile (\<lambda>c. c \<noteq> CHR ''.'') (key r))"
  by (simp add: normalise_def Let_def hd_split join_tl_split)

subsection \<open>Registration\<close>

lemma isRegistered_fails:
  "getAccountData toNumber this acct = Inl e \<Longrightarrow> isRegistered toNumber this acct = Inl e"
  by (simp add: isRegistered_def)

lemma isRegistered_succeeds:
  "getAccountData toNumber this acct = Inr d \<Longrightarrow> isRegistered toNumber this acct = Inr True"
  by (simp add: isRegistered_def)

lemma isRegistered_never_False: "isRegistered toNumber this acct \<noteq> Inr False"
  by (simp add: isRegistered_def split: sum.splits)

lemma isRegistered_unregistered:
  "DasService.provider this ''das_searchAccount'' [acct] = Inr \<lparr> data = None \<rparr> \<Longrightarrow>
   isRegistered toNumber this acct = Inl (ResolutionError UnregisteredDomain acct None None)"
  by (simp add: isRegistered_def getAccountData_def)

text \<open>C1. The claim is that \<open>isRegistered\<close> returns \<open>False\<close> when \<open>getAccountData\<close> fails
  with \<open>UnregisteredDomain\<close>, and never propagates that error. \<open>isRegistered\<close> catches
  nothing: for \<^verbatim>\<open>bob.bit\<close>, which the example indexer does not know, \<open>getAccountData\<close>
  fails with \<open>UnregisteredDomain\<close> and \<open>isRegistered\<close> fails with the same error.\<close>

theorem isRegistered_propagates_UnregisteredDomain:
  "getAccountData decimal example_service ''bob.bit''
     = Inl (ResolutionError UnregisteredDomain ''bob.bit'' None None)
   \<and> isRegistered decimal example_service ''bob.bit''
     = Inl (ResolutionError UnregisteredDomain ''bob.bit'' None None)
   \<and> isRegistered decimal example_service ''bob.bit'' \<noteq> Inr False"
  by (simp add: isRegistered_def getAccountData_def example_service_def example_provider_def)

subsection \<open>Reverse lookup\<close>

lemma reverse_unsupported_currency:
  "currencyTicker \<noteq> ''ETH'' \<Longrightarrow> currencyTicker \<noteq> ''CKB'' \<Longrightarrow>
   reverse this a0 currencyTicker
     = Inl (Error ''Das does not support any chain other than CKB and ETH'')"
  by (simp add: reverse_def)

lemma reverse_first:
  "currencyTicker = ''ETH'' \<or> currencyTicker = ''CKB'' \<Longrightarrow>
   allReverse this a0 = Inr (x # accounts) \<Longrightarrow>
   reverse this a0 currencyTicker = Inr (JSValue x)"
  by (auto simp: reverse_def)

lemma reverse_none:
  "currencyTicker = ''ETH'' \<or> currencyTicker = ''CKB'' \<Longrightarrow>
   allReverse this a0 = Inr [] \<Longrightarrow>
   reverse this a0 currencyTicker = Inr JSUndefined"
  by (auto simp: reverse_def)

text \<open>C5. The claim is that \<open>reverse\<close> returns \<^verbatim>\<open>null\<close> when \<open>allReverse\<close> is empty. The
  method returns \<^verbatim>\<open>accounts[0]\<close>, which on an empty array is \<^verbatim>\<open>undefined\<close>: for the
  address \<^verbatim>\<open>0xdef\<close>, which no account of the example indexer claims, \<open>reverse\<close> with
  \<^verbatim>\<open>ETH\<close> returns \<open>JSUndefined\<close>, not \<open>JSNull\<close>.\<close>

theorem reverse_no_match_is_undefined:
  "allReverse example_service ''0xdef'' = Inr []
   \<and> reverse example_service ''0xdef'' ''ETH'' = Inr JSUndefined
   \<and> reverse example_service ''0xdef'' ''ETH'' \<noteq> Inr JSNull"
  by (simp add: reverse_def allReverse_def example_service_def example_provider_def)

subsection \<open>Maps built by a loop of assignments\<close>


lemma map_of_rev_last_wins:
  assumes "\<forall>z\<in>set zs. f z \<noteq> f x"
  shows "map_of (rev (map (\<lambda>x. (f x, g x)) (ys @ x # zs))) (f x) = Some (g x)"
proof -
  have "map_of (rev (map (\<lambda>x. (f x, g x)) zs)) (f x) = None"
    using assms by (force simp: map_of_eq_None_iff)
  then show ?thesis
    by (simp add: map_add_def)
qed

subsection \<open>The example account\<close>

lemma example_getAccountData:
  "getAccountData decimal example_service ''alice.bit'' =
     Inr example_account_data"
  by (simp add: getAccountData_def example_service_def example_provider_def
      example_records_def normalise_def decimal_def example_account_data_def
      example_normalised_def split_def)

lemma example_account_data_records:
  "AccountData.records example_account_data = example_normalised"
  by (simp add: example_account_data_def)

lemma foldl_skip_lookup:
  assumes "k \<noteq> p"
  shows "foldl (\<lambda>m x. if f x = p then m else m(f x \<mapsto> g x)) m0 xs k
           = (m0 ++ map_of (rev (map (\<lambda>x. (f x, g x)) xs))) k"
  using assms
proof (induction xs arbitrary: m0)
  case Nil
  show ?case by simp
next
  case (Cons x xs)
  show ?case
  proof (cases "f x = p")
    case True
    with Cons show ?thesis by (auto simp: map_add_def split: option.splits)
  next
    case False
    with Cons show ?thesis by (auto simp: map_add_def split: option.splits)
  qed
qed

lemma foldl_skip_never:
  "foldl (\<lambda>m x. if f x = p then m else m(f x \<mapsto> g x)) m0 xs p = m0 p"
  by (induction xs arbitrary: m0) simp_all

subsection \<open>Property reads\<close>

lemma proto_is_member: "''__proto__'' \<in> set ObjectPrototype_members"
  by (simp add: ObjectPrototype_members_def)

lemma getProperty_not_member:
  "k \<notin> set ObjectPrototype_members \<Longrightarrow> getProperty obj k = obj k"
  by (simp add: getProperty_def split: option.splits)

lemma getProperty_member:
  "k \<in> set ObjectPrototype_members \<Longrightarrow> obj k = None \<Longrightarrow> getProperty obj k = Some (Member k)"
  by (simp add: getProperty_def)

subsection \<open>The example case mapping\<close>



lemma example_toLowerCase_examples:
  "example_toLowerCase ''PROFILE.Twitter'' = ''profile.twitter''"
  "example_toLowerCase ''profile.twitter'' = ''profile.twitter''"
  "example_toLowerCase ''address.ETH'' = ''address.eth''"
  "example_toLowerCase ''custom.note'' = ''custom.note''"
  "example_toLowerCase ''missing.key'' = ''missing.key''"
  "example_toLowerCase ''constructor'' = ''constructor''"
  by code_simp+


subsection \<open>The flattened record object\<close>

text \<open>Under a key other than \<^verbatim>\<open>__proto__\<close> the object holds the value of the last record
  with that lower-cased key; it never has an own property \<^verbatim>\<open>__proto__\<close>.\<close>

lemma flatten_lookup:
  "k \<noteq> ''__proto__'' \<Longrightarrow>
   flatten toLowerCase rs k
     = map_of (rev (map (\<lambda>r. (toLowerCase (key r), Str (value r))) rs)) k"
  unfolding flatten_def by (simp add: foldl_skip_lookup)

lemma flatten_proto: "flatten toLowerCase rs ''__proto__'' = None"
  unfolding flatten_def by (simp add: foldl_skip_never)

lemma flatten_None_iff:
  "k \<noteq> ''__proto__'' \<Longrightarrow>
   (flatten toLowerCase rs k = None) = (\<forall>r\<in>set rs. toLowerCase (key r) \<noteq> k)"
  by (force simp: flatten_lookup map_of_eq_None_iff)

lemma flatten_Some:
  assumes "flatten toLowerCase rs k = Some v"
  shows "\<exists>r\<in>set rs. k = toLowerCase (key r) \<and> v = Str (value r)"
proof -
  from assms have "k \<noteq> ''__proto__''"
    using flatten_proto [of toLowerCase rs] by auto
  with assms have "map_of (rev (map (\<lambda>r. (toLowerCase (key r), Str (value r))) rs)) k = Some v"
    by (simp add: flatten_lookup)
  then have "(k, v) \<in> set (rev (map (\<lambda>r. (toLowerCase (key r), Str (value r))) rs))"
    by (rule map_of_SomeD)
  then show ?thesis by auto
qed

lemma flatten_last_wins:
  assumes "i < length rs"
    and "toLowerCase (key (rs ! i)) \<noteq> ''__proto__''"
    and "\<forall>j. i < j \<and> j < length rs \<longrightarrow> toLowerCase (key (rs ! j)) \<noteq> toLowerCase (key (rs ! i))"
  shows "flatten toLowerCase rs (toLowerCase (key (rs ! i))) = Some (Str (value (rs ! i)))"
proof -
  have rs: "rs = take i rs @ rs ! i # drop (Suc i) rs"
    using assms(1) by (rule id_take_nth_drop)
  have "\<forall>z\<in>set (drop (Suc i) rs). toLowerCase (key z) \<noteq> toLowerCase (key (rs ! i))"
  proof
    fix z assume "z \<in> set (drop (Suc i) rs)"
    then obtain n where "n < length (drop (Suc i) rs)" "z = drop (Suc i) rs ! n"
      by (auto simp: in_set_conv_nth)
    then have "z = rs ! (Suc i + n)" "Suc i + n < length rs" by auto
    with assms(3) show "toLowerCase (key z) \<noteq> toLowerCase (key (rs ! i))" by simp
  qed
  then have "map_of (rev (map (\<lambda>r. (toLowerCase (key r), Str (value r)))
               (take i rs @ rs ! i # drop (Suc i) rs))) (toLowerCase (key (rs ! i)))
             = Some (Str (value (rs ! i)))"
    by (rule map_of_rev_last_wins)
  with rs assms(2) show ?thesis by (simp add: flatten_lookup)
qed

lemma allRecords_eq:
  "getAccountData toNumber this acct = Inr d \<Longrightarrow>
   allRecords toNumber toLowerCase this acct = Inr (flatten toLowerCase (AccountData.records d))"
  by (simp add: allRecords_def)

lemma flatten_example:
  "flatten example_toLowerCase example_normalised
     = [''profile.twitter'' \<mapsto> Str ''second'', ''address.eth'' \<mapsto> Str ''0xabc'',
        ''custom.note'' \<mapsto> Str []]"
  by (rule ext) (simp add: flatten_def example_normalised_def example_toLowerCase_examples)

subsection \<open>Single-record lookup\<close>

text \<open>C3, as amended. For an account that resolves and a key whose lower-cased form names
  no member of \<open>Object.prototype\<close>, \<open>record\<close> lower-cases the key and reads it in the
  flattened object of the account's records: the object lacks the lower-cased key exactly
  when no record has it as its lower-cased key, and the last record with that lower-cased
  key gives the value. \<open>record\<close> returns the value when the lower-cased key is mapped to
  a non-empty string, and fails with a resolution error of kind \<open>RecordNotFound\<close> exactly
  when the lower-cased key is absent from the object or mapped to the empty string.\<close>

theorem record_lookup:
  assumes "getAccountData toNumber this acct = Inr d"
    and "toLowerCase k0 \<notin> set ObjectPrototype_members"
  shows "allRecords toNumber toLowerCase this acct
           = Inr (flatten toLowerCase (AccountData.records d))
    \<and> ((flatten toLowerCase (AccountData.records d) (toLowerCase k0) = None)
         = (\<forall>r\<in>set (AccountData.records d). toLowerCase (key r) \<noteq> toLowerCase k0))
    \<and> (\<forall>i < length (AccountData.records d).
          toLowerCase (key (AccountData.records d ! i)) = toLowerCase k0
          \<and> (\<forall>j. i < j \<and> j < length (AccountData.records d) \<longrightarrow>
                toLowerCase (key (AccountData.records d ! j)) \<noteq> toLowerCase k0) \<longrightarrow>
          flatten toLowerCase (AccountData.records d) (toLowerCase k0)
            = Some (Str (value (AccountData.records d ! i))))
    \<and> (\<forall>v. flatten toLowerCase (AccountData.records d) (toLowerCase k0) = Some (Str v)
            \<and> v \<noteq> [] \<longrightarrow>
            record_method toNumber toLowerCase this acct k0 = Inr (Str v))
    \<and> ((\<exists>e. record_method toNumber toLowerCase this acct k0 = Inl e
              \<and> resolutionErrorKind e = Some RecordNotFound)
         = (flatten toLowerCase (AccountData.records d) (toLowerCase k0) = None
            \<or> flatten toLowerCase (AccountData.records d) (toLowerCase k0) = Some (Str [])))
    \<and> (flatten toLowerCase (AccountData.records d) (toLowerCase k0) = None
         \<or> flatten toLowerCase (AccountData.records d) (toLowerCase k0) = Some (Str []) \<longrightarrow>
        record_method toNumber toLowerCase this acct k0
          = Inl (ResolutionError RecordNotFound acct None (Some (toLowerCase k0))))"
proof -
  let ?rs = "AccountData.records d"
  let ?m = "flatten toLowerCase ?rs"
  let ?k = "toLowerCase k0"
  have k: "?k \<noteq> ''__proto__''"
    using assms(2) proto_is_member by auto
  have read: "getProperty ?m ?k = ?m ?k"
    using assms(2) by (rule getProperty_not_member)
  have all: "allRecords toNumber toLowerCase this acct = Inr ?m"
    using assms(1) by (rule allRecords_eq)
  have absent: "(?m ?k = None) = (\<forall>r\<in>set ?rs. toLowerCase (key r) \<noteq> ?k)"
    using k by (rule flatten_None_iff)
  have last: "?m ?k = Some (Str (value (?rs ! i)))"
    if "i < length ?rs" "toLowerCase (key (?rs ! i)) = ?k"
      "\<forall>j. i < j \<and> j < length ?rs \<longrightarrow> toLowerCase (key (?rs ! j)) \<noteq> ?k" for i
    using flatten_last_wins [of i ?rs toLowerCase] that k by simp
  have found: "record_method toNumber toLowerCase this acct k0 = Inr (Str v)"
    if "?m ?k = Some (Str v)" "v \<noteq> []" for v
    using that all read by (simp add: record_method_def Let_def)
  have missing: "record_method toNumber toLowerCase this acct k0
          = Inl (ResolutionError RecordNotFound acct None (Some ?k))"
    if "?m ?k = None \<or> ?m ?k = Some (Str [])"
    using that all read by (auto simp: record_method_def Let_def)
  have kind: "(\<exists>e. record_method toNumber toLowerCase this acct k0 = Inl e
              \<and> resolutionErrorKind e = Some RecordNotFound)
         = (?m ?k = None \<or> ?m ?k = Some (Str []))"
  proof (cases "?m ?k")
    case None
    with missing show ?thesis by (simp add: resolutionErrorKind_def)
  next
    case (Some p)
    then obtain r where "r \<in> set ?rs" and "p = Str (value r)"
      using flatten_Some [of toLowerCase ?rs ?k p] by blast
    show ?thesis
    proof (cases "value r = []")
      case True
      with Some \<open>p = Str (value r)\<close> missing show ?thesis
        by (simp add: resolutionErrorKind_def)
    next
      case False
      with Some \<open>p = Str (value r)\<close> found [of "value r"] show ?thesis by simp
    qed
  qed
  from all absent last found missing kind show ?thesis by blast
qed

text \<open>On the example account, \<^verbatim>\<open>PROFILE.Twitter\<close> finds the later of the two
  \<^verbatim>\<open>profile.twitter\<close> records, and \<^verbatim>\<open>missing.key\<close> fails with \<open>RecordNotFound\<close>.\<close>

theorem record_lookup_witness:
  "getAccountData decimal example_service ''alice.bit'' = Inr example_account_data
   \<and> example_toLowerCase ''PROFILE.Twitter'' \<notin> set ObjectPrototype_members
   \<and> example_toLowerCase ''missing.key'' \<notin> set ObjectPrototype_members
   \<and> record_method decimal example_toLowerCase example_service ''alice.bit'' ''PROFILE.Twitter''
       = Inr (Str ''second'')
   \<and> record_method decimal example_toLowerCase example_service ''alice.bit'' ''missing.key''
       = Inl (ResolutionError RecordNotFound ''alice.bit'' None (Some ''missing.key''))
   \<and> flatten example_toLowerCase example_normalised (example_toLowerCase ''PROFILE.Twitter'')
       = Some (Str (value (example_normalised ! 2)))"
proof -
  have a: "getAccountData decimal example_service ''alice.bit'' = Inr example_account_data"
    by (rule example_getAccountData)
  have p: "example_toLowerCase ''PROFILE.Twitter'' \<notin> set ObjectPrototype_members"
    by (simp add: example_toLowerCase_examples ObjectPrototype_members_def)
  have q: "example_toLowerCase ''missing.key'' \<notin> set ObjectPrototype_members"
    by (simp add: example_toLowerCase_examples ObjectPrototype_members_def)
  have b: "record_method decimal example_toLowerCase example_service ''alice.bit''
        ''PROFILE.Twitter'' = Inr (Str ''second'')"
    using record_lookup [where toLowerCase = example_toLowerCase
        and ?k0.0 = "''PROFILE.Twitter''", OF a p]
    by (simp add: example_account_data_records flatten_example example_toLowerCase_examples)
  have c: "record_method decimal example_toLowerCase example_service ''alice.bit''
        ''missing.key''
       = Inl (ResolutionError RecordNotFound ''alice.bit'' None (Some ''missing.key''))"
    using record_lookup [where toLowerCase = example_toLowerCase
        and ?k0.0 = "''missing.key''", OF a q]
    by (simp add: example_account_data_records flatten_example example_toLowerCase_examples)
  have "(2::nat) < length example_normalised"
    by (simp add: example_normalised_def)
  moreover have "example_toLowerCase (key (example_normalised ! 2))
      = example_toLowerCase ''PROFILE.Twitter''"
    by (simp add: example_normalised_def example_toLowerCase_examples)
  moreover have "\<forall>j. 2 < j \<and> j < length example_normalised \<longrightarrow>
      example_toLowerCase (key (example_normalised ! j)) \<noteq> example_toLowerCase ''PROFILE.Twitter''"
  proof (intro allI impI)
    fix j
    assume "2 < j \<and> j < length example_normalised"
    then have "j = 3"
      by (simp add: example_normalised_def)
    then show "example_toLowerCase (key (example_normalised ! j))
        \<noteq> example_toLowerCase ''PROFILE.Twitter''"
      by (simp add: example_normalised_def example_toLowerCase_examples)
  qed
  ultimately have d: "flatten example_toLowerCase example_normalised
      (example_toLowerCase ''PROFILE.Twitter'') = Some (Str (value (example_normalised ! 2)))"
    using record_lookup [where toLowerCase = example_toLowerCase
        and ?k0.0 = "''PROFILE.Twitter''", OF a p]
    unfolding example_account_data_records by blast
  from a p q b c d show ?thesis by blast
qed

text \<open>C3 as stated, that the value is returned whenever the lower-cased key is present and
  that \<open>RecordNotFound\<close> is raised exactly when it is absent, fails on a record with an
  empty value: the key \<^verbatim>\<open>custom.note\<close> is in the flattened object of the example account,
  and \<open>record\<close> fails with \<open>RecordNotFound\<close>.\<close>

theorem record_empty_value_counterexample:
  "(\<exists>m. allRecords decimal example_toLowerCase example_service ''alice.bit'' = Inr m
        \<and> m (example_toLowerCase ''custom.note'') = Some (Str [])
        \<and> getProperty m (example_toLowerCase ''custom.note'') = Some (Str []))
   \<and> record_method decimal example_toLowerCase example_service ''alice.bit'' ''custom.note''
       = Inl (ResolutionError RecordNotFound ''alice.bit'' None (Some ''custom.note''))"
  by (simp add: record_method_def allRecords_def example_getAccountData
      example_account_data_records flatten_example example_toLowerCase_examples getProperty_def)

text \<open>A key whose lower-cased form names a member of \<open>Object.prototype\<close>, and that no
  record has, is not missing for \<open>record\<close>: the read yields the inherited member, which
  \<open>record\<close> returns.\<close>

lemma record_inherited_member:
  assumes "getAccountData toNumber this acct = Inr d"
    and "toLowerCase k0 \<in> set ObjectPrototype_members"
    and "\<forall>r\<in>set (AccountData.records d). toLowerCase (key r) \<noteq> toLowerCase k0"
  shows "record_method toNumber toLowerCase this acct k0 = Inr (Member (toLowerCase k0))"
proof -
  have "flatten toLowerCase (AccountData.records d) (toLowerCase k0) = None"
  proof (cases "toLowerCase k0 = ''__proto__''")
    case True
    then show ?thesis by (simp add: flatten_proto)
  next
    case False
    with assms(3) show ?thesis by (simp add: flatten_None_iff)
  qed
  with assms(1,2) show ?thesis
    by (simp add: record_method_def allRecords_def Let_def getProperty_def)
qed

subsection \<open>Bulk lookup\<close>

lemma records_method_eq:
  "getAccountData toNumber this acct = Inr d \<Longrightarrow>
   records_method toNumber toLowerCase this acct ks
     = Inr (\<lambda>k. if k \<in> set ks \<and> k \<noteq> ''__proto__''
                 then Some (orEmpty (getProperty (flatten toLowerCase (AccountData.records d)) k))
                 else None)"
proof -
  let ?g = "\<lambda>k. orEmpty (getProperty (flatten toLowerCase (AccountData.records d)) k)"
  let ?step = "\<lambda>returnee k. if k = ''__proto__'' then returnee else returnee(k \<mapsto> ?g k)"
  assume d: "getAccountData toNumber this acct = Inr d"
  have at: "map_of (rev (map (\<lambda>k. (k, ?g k)) ks)) k = (if k \<in> set ks then Some (?g k) else None)"
    for k
    by (induction ks) (auto simp: map_add_def)
  have "foldl ?step Map.empty ks k
          = (if k \<in> set ks \<and> k \<noteq> ''__proto__'' then Some (?g k) else None)" for k
  proof (cases "k = ''__proto__''")
    case True
    then show ?thesis
      using foldl_skip_never [of "\<lambda>k. k" "''__proto__''" ?g Map.empty ks] by simp
  next
    case False
    then show ?thesis
      using foldl_skip_lookup [of k "''__proto__''" "\<lambda>k. k" ?g Map.empty ks] at [of k] by simp
  qed
  then have "foldl ?step Map.empty ks
      = (\<lambda>k. if k \<in> set ks \<and> k \<noteq> ''__proto__'' then Some (?g k) else None)"
    by (rule ext)
  with d show ?thesis
    by (simp add: records_method_def allRecords_def)
qed

text \<open>For the requested keys that name no member of \<open>Object.prototype\<close>, \<open>records\<close> does
  what is meant: it binds each to its value, or to the empty string.\<close>

lemma records_method_other_keys:
  assumes "getAccountData toNumber this acct = Inr d"
  shows "\<exists>m. records_method toNumber toLowerCase this acct ks = Inr m
           \<and> dom m = set ks - {''__proto__''}
           \<and> (\<forall>k\<in>set ks. k \<notin> set ObjectPrototype_members \<longrightarrow>
                 m k = Some (orEmpty (flatten toLowerCase (AccountData.records d) k))
                 \<and> (flatten toLowerCase (AccountData.records d) k = None \<longrightarrow> m k = Some (Str [])))"
proof -
  have "k \<noteq> ''__proto__''" if "k \<notin> set ObjectPrototype_members" for k
    using that proto_is_member by auto
  then show ?thesis
    using records_method_eq [OF assms, of toLowerCase ks]
    by (auto simp: getProperty_not_member orEmpty_def dom_def split: if_splits)
qed

text \<open>C7. The claim is that \<open>records\<close> binds every requested key, to the empty string
  when the flattened object lacks it. On the example account, which has no record
  \<^verbatim>\<open>constructor\<close>, the requested key \<^verbatim>\<open>constructor\<close> is bound to the member that the
  flattened object inherits from \<open>Object.prototype\<close>, not to the empty string, and the
  requested key \<^verbatim>\<open>__proto__\<close> is not bound.\<close>

theorem records_binds_inherited_member:
  "(\<exists>all. allRecords decimal example_toLowerCase example_service ''alice.bit'' = Inr all
          \<and> all ''constructor'' = None)
   \<and> (\<exists>m. records_method decimal example_toLowerCase example_service ''alice.bit''
             [''constructor''] = Inr m
          \<and> m ''constructor'' = Some (Member ''constructor'')
          \<and> m ''constructor'' \<noteq> Some (Str []))
   \<and> (\<exists>m. records_method decimal example_toLowerCase example_service ''alice.bit''
             [''__proto__''] = Inr m
          \<and> m ''__proto__'' = None)"
  by (simp add: records_method_eq [OF example_getAccountData] allRecords_eq [OF example_getAccountData]
      example_account_data_records flatten_example getProperty_def orEmpty_def
      ObjectPrototype_members_def)




subsection \<open>The aggregate view\<close>







subsection \<open>Construction\<close>

text \<open>C8, as amended. Construction fails with \<open>UnspecifiedUrl\<close> exactly when the url is
  absent or empty and no provider is supplied. A network that is absent or empty is
  replaced by \<^verbatim>\<open>mainnet\<close>. Construction fails with \<open>UnsupportedNetwork\<close>
  exactly when a non-empty url or a provider is supplied and the network is none of
  \<^verbatim>\<open>mainnet\<close>, \<^verbatim>\<open>testnet\<close> and \<^verbatim>\<open>aggron\<close>, and else succeeds and stores the network, the
  url, and the supplied provider or, without one, the default transport built from the
  url.\<close>

theorem DasService_new_spec:
  "((DasService_new FetchProvider source = Inl (ConfigurationError UnspecifiedUrl))
      = ((DasSource.url source = None \<or> DasSource.url source = Some [])
         \<and> DasSource.provider source = None))
   \<and> ((DasSource.network source = None \<or> DasSource.network source = Some []) \<longrightarrow>
        DasService_new FetchProvider source
          = DasService_new FetchProvider (source \<lparr> DasSource.network := Some ''mainnet'' \<rparr>))
   \<and> (\<forall>n. DasSource.network source = Some n \<and> n \<noteq> [] \<longrightarrow>
        ((DasService_new FetchProvider source = Inl (ConfigurationError UnsupportedNetwork))
           = (\<not> ((DasSource.url source = None \<or> DasSource.url source = Some [])
                  \<and> DasSource.provider source = None)
              \<and> n \<notin> {''mainnet'', ''testnet'', ''aggron''}))
        \<and> (\<not> ((DasSource.url source = None \<or> DasSource.url source = Some [])
                  \<and> DasSource.provider source = None)
            \<and> n \<in> {''mainnet'', ''testnet'', ''aggron''} \<longrightarrow>
            DasService_new FetchProvider source
              = Inr \<lparr> DasService.network = n, url = DasSource.url source,
                      provider = (case DasSource.provider source of
                                    Some p \<Rightarrow> p
                                  | None \<Rightarrow> FetchProvider (DasSource.url source)) \<rparr>))"
proof -
  have t: "truthy v = (\<not> (v = None \<or> v = Some []))" for v
    by (cases v) (simp_all add: truthy_def)
  have a: "(DasService_new FetchProvider source = Inl (ConfigurationError UnspecifiedUrl))
      = ((DasSource.url source = None \<or> DasSource.url source = Some [])
         \<and> DasSource.provider source = None)"
    by (auto simp: DasService_new_def Let_def t)
  have b: "DasService_new FetchProvider source
          = DasService_new FetchProvider (source \<lparr> DasSource.network := Some ''mainnet'' \<rparr>)"
    if "DasSource.network source = None \<or> DasSource.network source = Some []"
    using that by (auto simp: DasService_new_def Let_def truthy_def orEmpty_def split: option.splits)
  have c: "(DasService_new FetchProvider source = Inl (ConfigurationError UnsupportedNetwork))
           = (\<not> ((DasSource.url source = None \<or> DasSource.url source = Some [])
                  \<and> DasSource.provider source = None)
              \<and> n \<notin> {''mainnet'', ''testnet'', ''aggron''})"
    if "DasSource.network source = Some n \<and> n \<noteq> []" for n
    using that
    by (auto simp: DasService_new_def Let_def t truthy_def orEmpty_def DasSupportedNetwork_guard_def)
  have d: "DasService_new FetchProvider source
              = Inr \<lparr> DasService.network = n, url = DasSource.url source,
                      provider = (case DasSource.provider source of
                                    Some p \<Rightarrow> p
                                  | None \<Rightarrow> FetchProvider (DasSource.url source)) \<rparr>"
    if "DasSource.network source = Some n \<and> n \<noteq> []"
      and "\<not> ((DasSource.url source = None \<or> DasSource.url source = Some [])
                  \<and> DasSource.provider source = None)
            \<and> n \<in> {''mainnet'', ''testnet'', ''aggron''}" for n
    using that
    by (auto simp: DasService_new_def Let_def t truthy_def orEmpty_def DasSupportedNetwork_guard_def)
  from a b c d show ?thesis by blast
qed

theorem DasService_new_spec_witness:
  "DasService_new example_FetchProvider
       \<lparr> DasSource.url = Some ''https://indexer.da.systems'', network = None, provider = None \<rparr>
     = Inr \<lparr> DasService.network = ''mainnet'', url = Some ''https://indexer.da.systems'',
             provider = example_FetchProvider (Some ''https://indexer.da.systems'') \<rparr>
   \<and> DasService_new example_FetchProvider
       \<lparr> DasSource.url = Some ''https://indexer.da.systems'', network = Some ''ropsten'',
         provider = None \<rparr>
     = Inl (ConfigurationError UnsupportedNetwork)
   \<and> DasService_new example_FetchProvider
       \<lparr> DasSource.url = None, network = None, provider = None \<rparr>
     = Inl (ConfigurationError UnspecifiedUrl)"
proof -
  let ?u = "Some ''https://indexer.da.systems''"
  have "DasService_new example_FetchProvider
       \<lparr> DasSource.url = ?u, network = None, provider = None \<rparr>
     = DasService_new example_FetchProvider
       \<lparr> DasSource.url = ?u, network = Some ''mainnet'', provider = None \<rparr>"
    using DasService_new_spec [of example_FetchProvider
        "\<lparr> DasSource.url = ?u, network = None, provider = None \<rparr>"]
    by simp
  also have "\<dots> = Inr \<lparr> DasService.network = ''mainnet'', url = ?u,
             provider = example_FetchProvider ?u \<rparr>"
    using DasService_new_spec [of example_FetchProvider
        "\<lparr> DasSource.url = ?u, network = Some ''mainnet'', provider = None \<rparr>"]
    by simp
  finally have a: "DasService_new example_FetchProvider
       \<lparr> DasSource.url = ?u, network = None, provider = None \<rparr>
     = Inr \<lparr> DasService.network = ''mainnet'', url = ?u,
             provider = example_FetchProvider ?u \<rparr>" .
  have b: "DasService_new example_FetchProvider
       \<lparr> DasSource.url = ?u, network = Some ''ropsten'', provider = None \<rparr>
     = Inl (ConfigurationError UnsupportedNetwork)"
    using DasService_new_spec [of example_FetchProvider
        "\<lparr> DasSource.url = ?u, network = Some ''ropsten'', provider = None \<rparr>"]
    by simp
  have c: "DasService_new example_FetchProvider
       \<lparr> DasSource.url = None, network = None, provider = None \<rparr>
     = Inl (ConfigurationError UnspecifiedUrl)"
    using DasService_new_spec [of example_FetchProvider
        "\<lparr> DasSource.url = None, network = None, provider = None \<rparr>"]
    by simp
  from a b c show ?thesis by blast
qed

text \<open>C8 as stated, that \<open>UnspecifiedUrl\<close> is raised exactly when neither url nor
  provider is supplied, fails for a url that is supplied and empty.\<close>

theorem DasService_new_empty_url_counterexample:
  "DasSource.url \<lparr> DasSource.url = Some [], network = None, provider = None \<rparr> \<noteq> None
   \<and> DasService_new example_FetchProvider
        \<lparr> DasSource.url = Some [], network = None, provider = None \<rparr>
      = Inl (ConfigurationError UnspecifiedUrl)"
  by (simp add: DasService_new_def truthy_def)

end
